theory Spec2Isabelle
  imports Main
begin

section \<open>Data model shared by the two packages\<close>

text \<open>
  The repository holds the aggregator twice: package \<open>logger\<close> (the root package, with
  the \<open>OnError\<close> callback, \<open>NewId\<close> and \<open>SeenError\<close>) and package \<open>log\<close>
  (\<open>log/log.go\<close>). The declarations of \<open>logLevel\<close>, \<open>logKind\<close> and \<open>Log\<close> are the same
  text in both and are modelled once.

  Go's \<open>int\<close> (\<open>Status\<close>, \<open>Duration\<close>, \<open>Line\<close>) is carried as \<open>int\<close>: the code does no
  arithmetic on these fields. \<open>time.Time\<close> is an integer time stamp.
\<close>

datatype logLevel = logLevel string

fun String_logLevel :: "logLevel \<Rightarrow> string" where
  "String_logLevel (logLevel name) = name"

definition levelInfo :: logLevel where "levelInfo = logLevel ''Info''"
definition levelError :: logLevel where "levelError = logLevel ''Error''"
definition levelDebug :: logLevel where "levelDebug = logLevel ''Debug''"

datatype logKind = logKind string

fun String_logKind :: "logKind \<Rightarrow> string" where
  "String_logKind (logKind name) = name"

definition kindRequest :: logKind where "kindRequest = logKind ''request''"
definition kindSession :: logKind where "kindSession = logKind ''session''"

text \<open>
  \<open>*Entry\<close> is a pointer. Entries live in a heap, a list of allocated objects in which
  the address of an object is its index; \<open>&Entry{...}\<close> appends to the heap and yields the
  new index. Go has no dangling pointers, and every pointer the code puts into the store
  comes from such an allocation.
\<close>

type_synonym ptr = nat
type_synonym Time = int

definition alloc :: "'a list \<Rightarrow> 'a \<Rightarrow> ptr \<times> 'a list" where
  "alloc h e = (length h, h @ [e])"

record Log =
  Date :: Time
  Kind :: logKind
  ThreadId_Log :: string
  Route :: string
  Status :: int
  Duration :: int
  Entries :: "ptr list"

record ('k, 'v) kv =
  Key :: 'k
  Val :: 'v

text \<open>
  \<open>sync.Map\<close>, keyed by thread id, with slices of entry pointers as values. \<open>Load\<close>
  yields the value and \<open>ok\<close> as an option. A nil slice and an empty slice are both \<open>[]\<close>:
  the code only takes \<open>len\<close> of a slice, ranges over it, appends to it, or compares with
  nil a slice that is nil exactly when nothing was appended to it.
\<close>

type_synonym syncMap = "string \<rightharpoonup> ptr list"

definition Load :: "syncMap \<Rightarrow> string \<Rightarrow> ptr list option" where
  "Load m key = m key"

definition Store :: "syncMap \<Rightarrow> string \<Rightarrow> ptr list \<Rightarrow> syncMap" where
  "Store m key val = m(key \<mapsto> val)"

definition Delete :: "syncMap \<Rightarrow> string \<Rightarrow> syncMap" where
  "Delete m key = m(key := None)"

text \<open>
  What \<open>runtime.Caller\<close> and \<open>runtime.FuncForPC(pc).Name()\<close> report for the frame asked
  for is an input of the model.
\<close>

record Caller =
  funcName :: string
  fn :: string
  ln :: int
  ok :: bool

text \<open>\<open>strings.LastIndex\<close> for a separator of one byte: the last index, or \<open>-1\<close>.\<close>

definition LastIndex :: "string \<Rightarrow> char \<Rightarrow> int" where
  "LastIndex s sep =
     (case filter (\<lambda>i. s ! i = sep) (rev [0..<length s]) of
        [] \<Rightarrow> - 1
      | i # _ \<Rightarrow> int i)"

text \<open>Lines 139 to 148 of the root package, 116 to 125 of \<open>log/log.go\<close>.\<close>

definition callSite :: "Caller \<Rightarrow> string \<times> string \<times> int" where
  "callSite c =
     (if \<not> ok c then (''Unknown'', ''Unable to obtain call site.'', ln c)
      else (let function = funcName c;
                idx = LastIndex function CHR ''/'';
                function = (if idx \<noteq> - 1 then drop (nat (idx + 1)) function else function)
            in (function, fn c, ln c)))"

section \<open>Package logger\<close>

record ('k, 'v) Entry =
  ThreadId :: string
  Level :: string
  Function :: string
  File :: string
  Message :: string
  Line :: int
  KeyVals :: "('k, 'v) kv list"

text \<open>\<open>Entry{}\<close>, every field at its zero value.\<close>

definition zeroEntry :: "('k, 'v) Entry" where
  "zeroEntry = \<lparr>ThreadId = [], Level = [], Function = [], File = [], Message = [],
                Line = 0, KeyVals = []\<rparr>"

text \<open>
  A callback is \<open>nil\<close> or a function of the \<open>Log\<close> it is given. It may follow the entry
  pointers, so it reads the heap, and what it does happens in a world \<open>'w\<close> outside the
  logger: callbacks that call back into the logger or write to the entries are not
  modelled.
\<close>

type_synonym ('k, 'v, 'w) callback = "Log \<Rightarrow> ('k, 'v) Entry list \<Rightarrow> 'w \<Rightarrow> 'w"

record ('k, 'v, 'w) Logger =
  OnLogEvent :: "('k, 'v, 'w) callback option"
  OnError :: "('k, 'v, 'w) callback option"
  DisableDebug :: bool
  DisableRuntime :: bool
  logs :: syncMap

definition Data :: "('k, 'v) Entry list \<Rightarrow> ptr \<Rightarrow> 'k \<Rightarrow> 'v \<Rightarrow> ptr \<times> ('k, 'v) Entry list" where
  "Data h e k v = (e, h[e := (h ! e)\<lparr>KeyVals := KeyVals (h ! e) @ [\<lparr>Key = k, Val = v\<rparr>]\<rparr>])"

definition getCallSite :: "('k, 'v, 'w) Logger \<Rightarrow> Caller \<Rightarrow> string \<times> string \<times> int" where
  "getCallSite l c = (if DisableRuntime l then ([], [], 0) else callSite c)"

text \<open>
  \<open>insertEntry\<close> is a \<open>Load\<close> followed by a \<open>Store\<close>. \<open>insertEntry_Store\<close> is what
  follows the \<open>Load\<close> (lines 178 to 186), given what the \<open>Load\<close> returned.
\<close>

definition insertEntry_Store ::
  "('k, 'v, 'w) Logger \<Rightarrow> ('k, 'v) Entry list \<Rightarrow> ptr \<Rightarrow> ptr list option \<Rightarrow> ('k, 'v, 'w) Logger" where
  "insertEntry_Store l h e entries =
     (case entries of
        None \<Rightarrow> l\<lparr>logs := Store (logs l) (ThreadId (h ! e)) [e]\<rparr>
      | Some ee \<Rightarrow> l\<lparr>logs := Store (logs l) (ThreadId (h ! e)) (ee @ [e])\<rparr>)"

definition insertEntry ::
  "('k, 'v, 'w) Logger \<Rightarrow> ('k, 'v) Entry list \<Rightarrow> ptr \<Rightarrow> ('k, 'v, 'w) Logger" where
  "insertEntry l h e = insertEntry_Store l h e (Load (logs l) (ThreadId (h ! e)))"

text \<open>The result is the returned pointer, the logger and the heap.\<close>

definition logEntry ::
  "('k, 'v, 'w) Logger \<Rightarrow> ('k, 'v) Entry list \<Rightarrow> logLevel \<Rightarrow> string \<Rightarrow> string \<Rightarrow> Caller
   \<Rightarrow> ptr \<times> ('k, 'v, 'w) Logger \<times> ('k, 'v) Entry list" where
  "logEntry l h level threadId msg c =
     (if level = levelDebug \<and> DisableDebug l then
        (let (e, h') = alloc h zeroEntry in (e, l, h'))
      else
        (let (function, file, line) = getCallSite l c;
             (e, h') = alloc h \<lparr>ThreadId = threadId, Level = String_logLevel level,
                                Function = function, File = file, Message = msg,
                                Line = line, KeyVals = []\<rparr>
         in (e, insertEntry l h' e, h')))"

definition Info where "Info l h reqId msg c = logEntry l h levelInfo reqId msg c"
definition Error where "Error l h reqId msg c = logEntry l h levelError reqId msg c"
definition Debug where "Debug l h reqId msg c = logEntry l h levelDebug reqId msg c"

text \<open>
  \<open>uuid.NewV4\<close> is outside the repository. Its result is an input: the \<open>String()\<close> of the
  UUID it returned, and the \<open>Error()\<close> text of its error, \<open>None\<close> for a nil error.
\<close>

definition logUUIDError ::
  "('k, 'v, 'w) Logger \<Rightarrow> ('k, 'v) Entry list \<Rightarrow> string
   \<Rightarrow> ('k, 'v, 'w) Logger \<times> ('k, 'v) Entry list" where
  "logUUIDError l h err =
     (let (e, h') = alloc h \<lparr>ThreadId = [], Level = String_logLevel levelError,
                             Function = [], File = [],
                             Message = ''couldn't generate UUID for logger thread: '' @ err,
                             Line = 0, KeyVals = []\<rparr>
      in (insertEntry l h' e, h'))"

definition NewId ::
  "('k, 'v, 'w) Logger \<Rightarrow> ('k, 'v) Entry list \<Rightarrow> string \<times> string option
   \<Rightarrow> string \<times> ('k, 'v, 'w) Logger \<times> ('k, 'v) Entry list" where
  "NewId l h newV4 =
     (case newV4 of
        (newId, Some err) \<Rightarrow> (let (l', h') = logUUIDError l h err in (newId, l', h'))
      | (newId, None) \<Rightarrow> (newId, l, h))"

text \<open>
  The first block of \<open>end\<close> (lines 191 to 196; 156 to 161 in \<open>log/log.go\<close>): the slice for
  the thread id, and the store without it.
\<close>

definition takeAndClear :: "syncMap \<Rightarrow> string \<Rightarrow> ptr list \<times> syncMap" where
  "takeAndClear m threadId =
     (case Load m threadId of
        None \<Rightarrow> ([], m)
      | Some entries \<Rightarrow> (entries, Delete m threadId))"

text \<open>The loop of lines 217 to 221.\<close>

fun errsOf :: "('k, 'v) Entry list \<Rightarrow> ptr list \<Rightarrow> ptr list \<Rightarrow> ptr list" where
  "errsOf h errs [] = errs"
| "errsOf h errs (e # ee) =
     (if Level (h ! e) = String_logLevel levelError then errsOf h (errs @ [e]) ee
      else errsOf h errs ee)"

text \<open>
  \<open>end\<close>. The local variable \<open>log\<close> is threaded through the error block, which may
  assign its \<open>Entries\<close>; the result is the logger and the world after the callbacks.
\<close>

definition end' ::
  "('k, 'v, 'w) Logger \<Rightarrow> ('k, 'v) Entry list \<Rightarrow> logKind \<Rightarrow> string \<Rightarrow> string \<Rightarrow> int \<Rightarrow> int
   \<Rightarrow> Time \<Rightarrow> 'w \<Rightarrow> ('k, 'v, 'w) Logger \<times> 'w" where
  "end' l h kind threadId route status duration now w =
     (let (ee, m) = takeAndClear (logs l) threadId;
          l = l\<lparr>logs := m\<rparr>
      in if kind = kindSession \<and> length ee = 0 then (l, w)
         else
           (let log = \<lparr>Date = now, Kind = kind, ThreadId_Log = threadId, Route = route,
                       Status = status, Duration = duration, Entries = ee\<rparr>;
                (log, w) =
                  (case OnError l of
                     None \<Rightarrow> (log, w)
                   | Some onError \<Rightarrow>
                       (let errs = errsOf h [] ee
                        in if errs \<noteq> [] then
                             (let log = log\<lparr>Entries := errs\<rparr> in (log, onError log h w))
                           else (log, w)))
            in case OnLogEvent l of
                 None \<Rightarrow> (l, w)
               | Some onLogEvent \<Rightarrow> (l, onLogEvent log h w)))"

definition End where
  "End l h reqId route status duration now w =
     end' l h kindRequest reqId route status duration now w"

record Session =
  name_s :: string
  id_s :: string

definition Sess ::
  "('k, 'v, 'w) Logger \<Rightarrow> ('k, 'v) Entry list \<Rightarrow> string \<Rightarrow> string \<times> string option
   \<Rightarrow> Session \<times> ('k, 'v, 'w) Logger \<times> ('k, 'v) Entry list" where
  "Sess l h name newV4 =
     (let (i, l', h') = NewId l h newV4 in (\<lparr>name_s = name, id_s = i\<rparr>, l', h'))"

text \<open>The loop of lines 257 to 262, with its early return.\<close>

fun anyError :: "('k, 'v) Entry list \<Rightarrow> ptr list \<Rightarrow> bool" where
  "anyError h [] = False"
| "anyError h (e # ee) = (if Level (h ! e) = ''Error'' then True else anyError h ee)"

text \<open>
  \<open>SeenError\<close> in state-passing form: the logger and the heap come back as the body
  leaves them, and the body performs one \<open>Load\<close> and reads fields.
\<close>

definition SeenError ::
  "Session \<Rightarrow> ('k, 'v, 'w) Logger \<Rightarrow> ('k, 'v) Entry list
   \<Rightarrow> bool \<times> ('k, 'v, 'w) Logger \<times> ('k, 'v) Entry list" where
  "SeenError s l h =
     (case Load (logs l) (id_s s) of
        None \<Rightarrow> (False, l, h)
      | Some ee \<Rightarrow> (anyError h ee, l, h))"

definition Session_Info where "Session_Info s l h msg c = logEntry l h levelInfo (id_s s) msg c"
definition Session_Error where "Session_Error s l h msg c = logEntry l h levelError (id_s s) msg c"
definition Session_Debug where "Session_Debug s l h msg c = logEntry l h levelDebug (id_s s) msg c"

definition Session_End where
  "Session_End s l h now w = end' l h kindSession (id_s s) (name_s s) 0 0 now w"

section \<open>Package log\<close>

text \<open>
  \<open>log/log.go\<close>. Names are prefixed with the package name where the root package has the
  same one. The \<open>logger\<close> field of an entry is \<open>None\<close> for nil and \<open>Some ()\<close> for the
  pointer to the logger that made the entry. \<open>gen.Base64\<close> is outside the repository:
  the string it returns is an input, and the code drops its error.
\<close>

record ('k, 'v) log_entry =
  log_logger :: "unit option"
  log_EntryId :: string
  log_ThreadId :: string
  log_Level :: string
  log_Function :: string
  log_File :: string
  log_Message :: string
  log_Line :: int
  log_KeyVals :: "('k, 'v) kv list"

definition log_zeroEntry :: "('k, 'v) log_entry" where
  "log_zeroEntry = \<lparr>log_logger = None, log_EntryId = [], log_ThreadId = [], log_Level = [],
                    log_Function = [], log_File = [], log_Message = [], log_Line = 0,
                    log_KeyVals = []\<rparr>"

type_synonym ('k, 'v, 'w) log_callback = "Log \<Rightarrow> ('k, 'v) log_entry list \<Rightarrow> 'w \<Rightarrow> 'w"

record ('k, 'v, 'w) log_Logger =
  log_OnLogEvent :: "('k, 'v, 'w) log_callback option"
  log_DisableDebug :: bool
  log_DisableRuntime :: bool
  log_logs :: syncMap

definition log_Data ::
  "('k, 'v) log_entry list \<Rightarrow> ptr \<Rightarrow> 'k \<Rightarrow> 'v \<Rightarrow> ptr \<times> ('k, 'v) log_entry list" where
  "log_Data h e k v =
     (e, h[e := (h ! e)\<lparr>log_KeyVals := log_KeyVals (h ! e) @ [\<lparr>Key = k, Val = v\<rparr>]\<rparr>])"

text \<open>Lines 140 to 151 of \<open>logEntry\<close>: a \<open>Load\<close>, then a \<open>Store\<close>.\<close>

definition log_insert_Store ::
  "('k, 'v, 'w) log_Logger \<Rightarrow> string \<Rightarrow> ptr \<Rightarrow> ptr list option \<Rightarrow> ('k, 'v, 'w) log_Logger" where
  "log_insert_Store l threadId e entries =
     (case entries of
        None \<Rightarrow> l\<lparr>log_logs := Store (log_logs l) threadId [e]\<rparr>
      | Some ee \<Rightarrow> l\<lparr>log_logs := Store (log_logs l) threadId (ee @ [e])\<rparr>)"

definition log_logEntry ::
  "('k, 'v, 'w) log_Logger \<Rightarrow> ('k, 'v) log_entry list \<Rightarrow> logLevel \<Rightarrow> string \<Rightarrow> string
   \<Rightarrow> Caller \<Rightarrow> string
   \<Rightarrow> ptr \<times> ('k, 'v, 'w) log_Logger \<times> ('k, 'v) log_entry list" where
  "log_logEntry l h level threadId msg c entryId =
     (if log_DisableDebug l then
        (let (e, h') = alloc h log_zeroEntry in (e, l, h'))
      else
        (let (function, file, line) =
               (if \<not> log_DisableRuntime l then callSite c else ([], [], 0));
             (e, h') = alloc h \<lparr>log_logger = Some (), log_EntryId = entryId,
                                log_ThreadId = threadId, log_Level = String_logLevel level,
                                log_Function = function, log_File = file,
                                log_Message = msg, log_Line = line, log_KeyVals = []\<rparr>
         in (e, log_insert_Store l threadId e (Load (log_logs l) threadId), h')))"

definition log_Info where "log_Info l h reqId msg c i = log_logEntry l h levelInfo reqId msg c i"
definition log_Error where "log_Error l h reqId msg c i = log_logEntry l h levelError reqId msg c i"
definition log_Debug where "log_Debug l h reqId msg c i = log_logEntry l h levelDebug reqId msg c i"

definition log_end ::
  "('k, 'v, 'w) log_Logger \<Rightarrow> ('k, 'v) log_entry list \<Rightarrow> logKind \<Rightarrow> string \<Rightarrow> string \<Rightarrow> int
   \<Rightarrow> int \<Rightarrow> Time \<Rightarrow> 'w \<Rightarrow> ('k, 'v, 'w) log_Logger \<times> 'w" where
  "log_end l h kind threadId route status duration now w =
     (let (ee, m) = takeAndClear (log_logs l) threadId;
          l = l\<lparr>log_logs := m\<rparr>
      in if kind = kindSession \<and> length ee = 0 then (l, w)
         else
           (case log_OnLogEvent l of
              None \<Rightarrow> (l, w)
            | Some onLogEvent \<Rightarrow>
                (l, onLogEvent \<lparr>Date = now, Kind = kind, ThreadId_Log = threadId,
                                 Route = route, Status = status, Duration = duration,
                                 Entries = ee\<rparr> h w)))"

definition log_End where
  "log_End l h reqId route status duration now w =
     log_end l h kindRequest reqId route status duration now w"

definition log_Sess :: "string \<Rightarrow> string \<Rightarrow> Session" where
  "log_Sess name i = \<lparr>name_s = name, id_s = i\<rparr>"

definition log_Session_End where
  "log_Session_End s l h now w = log_end l h kindSession (id_s s) (name_s s) 0 0 now w"

section \<open>Callers\<close>

text \<open>
  One thread of execution making record calls one after the other under one thread id;
  the pointers the calls return are collected in call order.
\<close>

fun logEntries ::
  "('k, 'v, 'w) Logger \<Rightarrow> ('k, 'v) Entry list \<Rightarrow> string \<Rightarrow> (logLevel \<times> string \<times> Caller) list
   \<Rightarrow> ptr list \<times> ('k, 'v, 'w) Logger \<times> ('k, 'v) Entry list" where
  "logEntries l h threadId [] = ([], l, h)"
| "logEntries l h threadId ((level, msg, c) # calls) =
     (let (e, l', h') = logEntry l h level threadId msg c;
          (es, l'', h'') = logEntries l' h' threadId calls
      in (e # es, l'', h''))"

fun log_logEntries ::
  "('k, 'v, 'w) log_Logger \<Rightarrow> ('k, 'v) log_entry list \<Rightarrow> string
   \<Rightarrow> (logLevel \<times> string \<times> Caller \<times> string) list
   \<Rightarrow> ptr list \<times> ('k, 'v, 'w) log_Logger \<times> ('k, 'v) log_entry list" where
  "log_logEntries l h threadId [] = ([], l, h)"
| "log_logEntries l h threadId ((level, msg, c, i) # calls) =
     (let (e, l', h') = log_logEntry l h level threadId msg c i;
          (es, l'', h'') = log_logEntries l' h' threadId calls
      in (e # es, l'', h''))"

text \<open>
  Goroutines that each call \<open>insertEntry\<close> on the entries of a list, one after the
  other. A goroutine is between calls (\<open>held = None\<close>) or between the \<open>Load\<close> and the
  \<open>Store\<close> of a call, holding what the \<open>Load\<close> returned. \<open>sync.Map\<close> makes each of its
  operations atomic, so an execution is an order in which the goroutines perform their
  next operation: \<open>run\<close> takes that order as a list of goroutine indices.
\<close>

record goroutine =
  todo :: "ptr list"
  held :: "ptr list option option"

definition gstep ::
  "('k, 'v, 'w) Logger \<Rightarrow> ('k, 'v) Entry list \<Rightarrow> goroutine \<Rightarrow> ('k, 'v, 'w) Logger \<times> goroutine" where
  "gstep l h g =
     (case todo g of
        [] \<Rightarrow> (l, g)
      | e # es \<Rightarrow>
          (case held g of
             None \<Rightarrow> (l, g\<lparr>held := Some (Load (logs l) (ThreadId (h ! e)))\<rparr>)
           | Some entries \<Rightarrow> (insertEntry_Store l h e entries, \<lparr>todo = es, held = None\<rparr>)))"

fun run ::
  "('k, 'v, 'w) Logger \<Rightarrow> ('k, 'v) Entry list \<Rightarrow> goroutine list \<Rightarrow> nat list
   \<Rightarrow> ('k, 'v, 'w) Logger \<times> goroutine list" where
  "run l h gs [] = (l, gs)"
| "run l h gs (i # sched) =
     (if i < length gs then
        (let (l', g') = gstep l h (gs ! i) in run l' h (gs[i := g']) sched)
      else run l h gs sched)"

definition finished :: "goroutine list \<Rightarrow> bool" where
  "finished gs = list_all (\<lambda>g. todo g = []) gs"

section \<open>Test doubles and example inputs\<close>

text \<open>
  Callbacks that record, in a world that is the list of calls made so far, which callback
  was called and with which \<open>Log\<close>.
\<close>

datatype call = Call_OnError Log | Call_OnLogEvent Log

definition recOnError :: "(string, string, call list) callback" where
  "recOnError log h w = w @ [Call_OnError log]"

definition recOnLogEvent :: "(string, string, call list) callback" where
  "recOnLogEvent log h w = w @ [Call_OnLogEvent log]"

definition log_recOnLogEvent :: "(string, string, call list) log_callback" where
  "log_recOnLogEvent log h w = w @ [Call_OnLogEvent log]"

definition exLogger :: "(string, string, call list) Logger" where
  "exLogger = \<lparr>OnLogEvent = Some recOnLogEvent, OnError = Some recOnError,
               DisableDebug = False, DisableRuntime = True, logs = Map.empty\<rparr>"

definition log_exLogger :: "(string, string, call list) log_Logger" where
  "log_exLogger = \<lparr>log_OnLogEvent = Some log_recOnLogEvent, log_DisableDebug = False,
                   log_DisableRuntime = True, log_logs = Map.empty\<rparr>"

definition mkEntry :: "string \<Rightarrow> logLevel \<Rightarrow> string \<Rightarrow> (string, string) Entry" where
  "mkEntry threadId level msg =
     \<lparr>ThreadId = threadId, Level = String_logLevel level, Function = [], File = [],
      Message = msg, Line = 0, KeyVals = []\<rparr>"

text \<open>The entries \<open>Info("a")\<close>, \<open>Error("b")\<close>, \<open>Debug("c")\<close>, \<open>Error("d")\<close> of thread \<open>t\<close>.\<close>

definition exHeap :: "(string, string) Entry list" where
  "exHeap = [mkEntry ''t'' levelInfo ''a'', mkEntry ''t'' levelError ''b'',
             mkEntry ''t'' levelDebug ''c'', mkEntry ''t'' levelError ''d'']"

definition exCaller :: Caller where
  "exCaller = \<lparr>funcName = ''github.com/acme/shop/web.Handle'', fn = ''/src/web/handle.go'',
               ln = 42, ok = True\<rparr>"

definition exSession :: Session where
  "exSession = \<lparr>name_s = ''job'', id_s = ''t''\<rparr>"

definition exCalls :: "(logLevel \<times> string \<times> Caller) list" where
  "exCalls = [(levelInfo, ''a'', exCaller), (levelError, ''b'', exCaller),
              (levelDebug, ''c'', exCaller)]"

definition log_exCalls :: "(logLevel \<times> string \<times> Caller \<times> string) list" where
  "log_exCalls = [(levelInfo, ''a'', exCaller, ''id0''), (levelError, ''b'', exCaller, ''id1'')]"

text \<open>The entry that a record call which is not suppressed allocates.\<close>

definition newEntry ::
  "('k, 'v, 'w) Logger \<Rightarrow> string \<Rightarrow> logLevel \<times> string \<times> Caller \<Rightarrow> ('k, 'v) Entry" where
  "newEntry l threadId call =
     \<lparr>ThreadId = threadId, Level = String_logLevel (fst call),
      Function = fst (getCallSite l (snd (snd call))),
      File = fst (snd (getCallSite l (snd (snd call)))),
      Message = fst (snd call), Line = snd (snd (getCallSite l (snd (snd call)))),
      KeyVals = []\<rparr>"

definition log_newEntry ::
  "('k, 'v, 'w) log_Logger \<Rightarrow> string \<Rightarrow> logLevel \<times> string \<times> Caller \<times> string
   \<Rightarrow> ('k, 'v) log_entry" where
  "log_newEntry l threadId call =
     (let c = fst (snd (snd call));
          site = (if log_DisableRuntime l then ([], [], 0) else callSite c)
      in \<lparr>log_logger = Some (), log_EntryId = snd (snd (snd call)), log_ThreadId = threadId,
          log_Level = String_logLevel (fst call), log_Function = fst site,
          log_File = fst (snd site), log_Message = fst (snd call),
          log_Line = snd (snd site), log_KeyVals = []\<rparr>)"

section \<open>The store\<close>

lemma takeAndClear_eq:
  "takeAndClear m threadId =
     ((case m threadId of None \<Rightarrow> [] | Some ee \<Rightarrow> ee), m(threadId := None))"
  by (auto simp: takeAndClear_def Load_def Delete_def split: option.splits)

lemma takeAndClear_upd: "fst (takeAndClear (m(threadId \<mapsto> ee)) threadId) = ee"
  by (simp add: takeAndClear_eq)

lemma insertEntry_eq:
  "insertEntry l h e =
     l\<lparr>logs := (logs l)(ThreadId (h ! e) \<mapsto>
                   fst (takeAndClear (logs l) (ThreadId (h ! e))) @ [e])\<rparr>"
  by (simp add: insertEntry_def insertEntry_Store_def Load_def Store_def takeAndClear_eq
      split: option.splits)

lemma errsOf_filter:
  "errsOf h errs ee = errs @ filter (\<lambda>e. Level (h ! e) = ''Error'') ee"
  by (induction ee arbitrary: errs) (simp_all add: levelError_def)

lemma anyError_iff: "anyError h ee \<longleftrightarrow> (\<exists>e \<in> set ee. Level (h ! e) = ''Error'')"
  by (induction ee) simp_all

lemma end'_logs:
  "logs (fst (end' l h kind threadId route status duration now w)) = (logs l)(threadId := None)"
  by (simp add: end'_def takeAndClear_eq Let_def split: option.splits prod.splits)

lemma log_end_logs:
  "log_logs (fst (log_end l h kind threadId route status duration now w))
     = (log_logs l)(threadId := None)"
  by (simp add: log_end_def takeAndClear_eq Let_def split: option.splits prod.splits)

lemma end'_fst:
  "fst (end' l h kind threadId route status duration now w)
     = l\<lparr>logs := (logs l)(threadId := None)\<rparr>"
  by (simp add: end'_def takeAndClear_eq Let_def split: option.splits prod.splits)

lemma log_end_fst:
  "fst (log_end l h kind threadId route status duration now w)
     = l\<lparr>log_logs := (log_logs l)(threadId := None)\<rparr>"
  by (simp add: log_end_def takeAndClear_eq Let_def split: option.splits prod.splits)

section \<open>Finishing\<close>

text \<open>
  C10. \<open>end\<close> removes the mapping of its thread id from the store, whatever the kind,
  the buffered entries and the callbacks are, and leaves the mapping of every other id
  as it was: the store afterwards is the store before with that one key removed. This
  holds in both packages.
\<close>

theorem finish_removes_mapping_only:
  "logs (fst (end' l h kind threadId route status duration now w)) = (logs l)(threadId := None)
   \<and> log_logs (fst (log_end l2 h2 kind threadId route status duration now w2))
       = (log_logs l2)(threadId := None)"
  by (simp add: end'_logs log_end_logs)

text \<open>
  C4. Take-and-clear yields the sequence buffered for the id (the empty one when the id
  has no mapping), and a second take-and-clear right after it yields the empty sequence
  and leaves the store as it is. After \<open>end\<close> for an id, in either package, the
  take-and-clear of a second \<open>end\<close> for that id yields the empty sequence.
\<close>

theorem take_and_clear_twice:
  "fst (takeAndClear m threadId) = (case m threadId of None \<Rightarrow> [] | Some ee \<Rightarrow> ee)
   \<and> takeAndClear (snd (takeAndClear m threadId)) threadId
       = ([], snd (takeAndClear m threadId))
   \<and> takeAndClear (logs (fst (end' l h kind threadId route status duration now w))) threadId
       = ([], logs (fst (end' l h kind threadId route status duration now w)))
   \<and> takeAndClear (log_logs (fst (log_end l2 h2 kind threadId route status duration now w2)))
         threadId
       = ([], log_logs (fst (log_end l2 h2 kind threadId route status duration now w2)))"
  by (simp add: takeAndClear_eq end'_logs log_end_logs)

text \<open>
  C3. When the sequence drained for the id is empty, \<open>end\<close> of kind session calls no
  callback: the world is as before, whatever callbacks the logger has. This holds in both
  packages.
\<close>

theorem empty_session_not_emitted:
  assumes "fst (takeAndClear (logs l) threadId) = []"
      and "fst (takeAndClear (log_logs l2) threadId) = []"
  shows "snd (end' l h kindSession threadId route status duration now w) = w
         \<and> snd (log_end l2 h2 kindSession threadId route status duration now w2) = w2"
proof -
  obtain ee m where tc: "takeAndClear (logs l) threadId = (ee, m)"
    by (cases "takeAndClear (logs l) threadId")
  obtain ee2 m2 where tc2: "takeAndClear (log_logs l2) threadId = (ee2, m2)"
    by (cases "takeAndClear (log_logs l2) threadId")
  from assms tc tc2 have "ee = []" and "ee2 = []" by simp_all
  with tc tc2 show ?thesis by (simp add: end'_def log_end_def)
qed

theorem empty_session_not_emitted_witness:
  "fst (takeAndClear (logs exLogger) ''t'') = []
   \<and> fst (takeAndClear (log_logs log_exLogger) ''t'') = []
   \<and> snd (end' exLogger exHeap kindSession ''t'' ''job'' 0 0 7 []) = []
   \<and> snd (log_end log_exLogger [] kindSession ''t'' ''job'' 0 0 7 []) = []"
proof -
  have a: "fst (takeAndClear (logs exLogger) ''t'') = []"
    by (simp add: takeAndClear_eq exLogger_def)
  have b: "fst (takeAndClear (log_logs log_exLogger) ''t'') = []"
    by (simp add: takeAndClear_eq log_exLogger_def)
  from empty_session_not_emitted [OF a b] a b show ?thesis by blast
qed

section \<open>Identifiers and sessions\<close>

text \<open>
  C7. When the generator reports an error, \<open>NewId\<close> returns the string of the value the
  generator produced, and the only other effect is one new entry, of level Error, with
  an empty thread id and a message made from the error's text, appended to the sequence
  stored under the empty thread id. The result type of \<open>NewId\<close> has no error.
\<close>

theorem NewId_generator_error:
  "NewId l h (newId, Some err) =
     (newId,
      l\<lparr>logs := (logs l)([] \<mapsto> fst (takeAndClear (logs l) []) @ [length h])\<rparr>,
      h @ [\<lparr>ThreadId = [], Level = ''Error'', Function = [], File = [],
             Message = ''couldn't generate UUID for logger thread: '' @ err,
             Line = 0, KeyVals = []\<rparr>])"
  by (simp add: NewId_def logUUIDError_def alloc_def insertEntry_eq levelError_def)

text \<open>
  C8. \<open>SeenError\<close> is true exactly when the store has a sequence for the session's id
  and one of its entries has level Error; the logger and the heap are left as they were.
\<close>

theorem SeenError_peek:
  "SeenError s l h =
     ((\<exists>ee. logs l (id_s s) = Some ee \<and> (\<exists>e \<in> set ee. Level (h ! e) = ''Error'')), l, h)"
  by (simp add: SeenError_def Load_def anyError_iff split: option.splits)

theorem SeenError_peek_witness:
  "SeenError exSession (exLogger\<lparr>logs := [''t'' \<mapsto> [0, 1]]\<rparr>) exHeap
     = (True, exLogger\<lparr>logs := [''t'' \<mapsto> [0, 1]]\<rparr>, exHeap)
   \<and> SeenError exSession exLogger exHeap = (False, exLogger, exHeap)"
  by (simp add: SeenError_peek exSession_def exLogger_def exHeap_def mkEntry_def levelError_def)

section \<open>Recording\<close>

lemma logEntry_suppressed:
  "DisableDebug l \<Longrightarrow> logEntry l h levelDebug threadId msg c = (length h, l, h @ [zeroEntry])"
  by (simp add: logEntry_def alloc_def)

lemma logEntry_stored:
  "\<not> (level = levelDebug \<and> DisableDebug l) \<Longrightarrow>
   logEntry l h level threadId msg c =
     (length h,
      l\<lparr>logs := (logs l)(threadId \<mapsto> fst (takeAndClear (logs l) threadId) @ [length h])\<rparr>,
      h @ [newEntry l threadId (level, msg, c)])"
  by (auto simp: logEntry_def alloc_def insertEntry_eq newEntry_def split: prod.splits)

lemma Data_noop:
  "Data (h @ [zeroEntry]) (length h) k v =
     (length h, h @ [zeroEntry\<lparr>KeyVals := [\<lparr>Key = k, Val = v\<rparr>]\<rparr>])"
  by (simp add: Data_def zeroEntry_def)

lemma log_logEntry_suppressed:
  "log_DisableDebug l \<Longrightarrow>
   log_logEntry l h level threadId msg c i = (length h, l, h @ [log_zeroEntry])"
  by (simp add: log_logEntry_def alloc_def)

lemma log_logEntry_stored:
  "\<not> log_DisableDebug l \<Longrightarrow>
   log_logEntry l h level threadId msg c i =
     (length h,
      l\<lparr>log_logs := (log_logs l)(threadId \<mapsto> fst (takeAndClear (log_logs l) threadId) @ [length h])\<rparr>,
      h @ [log_newEntry l threadId (level, msg, c, i)])"
  by (auto simp: log_logEntry_def alloc_def log_insert_Store_def Load_def Store_def
      log_newEntry_def takeAndClear_eq split: prod.splits option.splits)

lemma getCallSite_logs [simp]: "getCallSite (l\<lparr>logs := m\<rparr>) c = getCallSite l c"
  by (simp add: getCallSite_def)

lemma newEntry_logs [simp]: "newEntry (l\<lparr>logs := m\<rparr>) threadId call = newEntry l threadId call"
  by (simp add: newEntry_def)

lemma log_newEntry_logs [simp]:
  "log_newEntry (l\<lparr>log_logs := m\<rparr>) threadId call = log_newEntry l threadId call"
  by (simp add: log_newEntry_def)

lemma upt_shift: "[n ..< n + Suc k] = n # [Suc n ..< Suc n + k]"
proof -
  have "[n ..< n + Suc k] = n # [Suc n ..< n + Suc k]" by (rule upt_conv_Cons) simp
  then show ?thesis by (simp del: upt_Suc)
qed

lemma logEntries_stored:
  "\<forall>call \<in> set calls. \<not> (fst call = levelDebug \<and> DisableDebug l) \<Longrightarrow>
   logEntries l h threadId calls = (es, l', h') \<Longrightarrow>
   es = [length h ..< length h + length calls]
   \<and> h' = h @ map (newEntry l threadId) calls
   \<and> l' = l\<lparr>logs := logs l'\<rparr>
   \<and> fst (takeAndClear (logs l') threadId) = fst (takeAndClear (logs l) threadId) @ es"
proof (induction calls arbitrary: l h es l' h')
  case Nil
  then show ?case by simp
next
  case (Cons call calls)
  obtain level msg c where call: "call = (level, msg, c)" by (cases call)
  from Cons.prems(1) call have ns: "\<not> (level = levelDebug \<and> DisableDebug l)" by simp
  define l1 where "l1 = l\<lparr>logs := (logs l)(threadId \<mapsto> fst (takeAndClear (logs l) threadId) @ [length h])\<rparr>"
  have step: "logEntry l h level threadId msg c = (length h, l1, h @ [newEntry l threadId call])"
    using logEntry_stored [OF ns] by (simp add: l1_def call)
  obtain es2 where rest: "logEntries l1 (h @ [newEntry l threadId call]) threadId calls = (es2, l', h')"
    and es: "es = length h # es2"
    using Cons.prems(2) call step by (auto split: prod.splits)
  have ns': "\<forall>call \<in> set calls. \<not> (fst call = levelDebug \<and> DisableDebug l1)"
    using Cons.prems(1) by (simp add: l1_def)
  note IH = Cons.IH [OF ns' rest]
  from IH have es2: "es2 = [Suc (length h) ..< Suc (length h) + length calls]"
    by (simp del: upt_Suc)
  from IH have h': "h' = (h @ [newEntry l threadId call]) @ map (newEntry l1 threadId) calls"
    by simp
  from IH have l': "l' = l1\<lparr>logs := logs l'\<rparr>" by simp
  from IH have tk: "fst (takeAndClear (logs l') threadId) = fst (takeAndClear (logs l1) threadId) @ es2"
    by simp
  have a: "es = [length h ..< length h + length (call # calls)]"
    using es es2 upt_shift [of "length h" "length calls"] by simp
  have b: "h' = h @ map (newEntry l threadId) (call # calls)"
    using h' by (simp add: l1_def)
  have c: "l' = l\<lparr>logs := logs l'\<rparr>"
    using l' by (simp add: l1_def)
  have d: "fst (takeAndClear (logs l') threadId) = fst (takeAndClear (logs l) threadId) @ es"
    using tk es by (simp add: l1_def takeAndClear_upd)
  show ?case using a b c d by simp
qed

lemma log_logEntries_stored:
  "\<not> log_DisableDebug l \<Longrightarrow>
   log_logEntries l h threadId calls = (es, l', h') \<Longrightarrow>
   es = [length h ..< length h + length calls]
   \<and> h' = h @ map (log_newEntry l threadId) calls
   \<and> l' = l\<lparr>log_logs := log_logs l'\<rparr>
   \<and> fst (takeAndClear (log_logs l') threadId) = fst (takeAndClear (log_logs l) threadId) @ es"
proof (induction calls arbitrary: l h es l' h')
  case Nil
  then show ?case by simp
next
  case (Cons call calls)
  obtain level msg c i where call: "call = (level, msg, c, i)" by (cases call)
  note ns = Cons.prems(1)
  define l1 where "l1 = l\<lparr>log_logs := (log_logs l)(threadId \<mapsto> fst (takeAndClear (log_logs l) threadId) @ [length h])\<rparr>"
  have step: "log_logEntry l h level threadId msg c i = (length h, l1, h @ [log_newEntry l threadId call])"
    using log_logEntry_stored [OF ns] by (simp add: l1_def call)
  obtain es2 where rest: "log_logEntries l1 (h @ [log_newEntry l threadId call]) threadId calls = (es2, l', h')"
    and es: "es = length h # es2"
    using Cons.prems(2) call step by (auto split: prod.splits)
  have ns': "\<not> log_DisableDebug l1"
    using ns by (simp add: l1_def)
  note IH = Cons.IH [OF ns' rest]
  from IH have es2: "es2 = [Suc (length h) ..< Suc (length h) + length calls]"
    by (simp del: upt_Suc)
  from IH have h': "h' = (h @ [log_newEntry l threadId call]) @ map (log_newEntry l1 threadId) calls"
    by simp
  from IH have l': "l' = l1\<lparr>log_logs := log_logs l'\<rparr>" by simp
  from IH have tk: "fst (takeAndClear (log_logs l') threadId) = fst (takeAndClear (log_logs l1) threadId) @ es2"
    by simp
  have a: "es = [length h ..< length h + length (call # calls)]"
    using es es2 upt_shift [of "length h" "length calls"] by simp
  have b: "h' = h @ map (log_newEntry l threadId) (call # calls)"
    using h' by (simp add: l1_def)
  have c: "l' = l\<lparr>log_logs := log_logs l'\<rparr>"
    using l' by (simp add: l1_def)
  have d: "fst (takeAndClear (log_logs l') threadId) = fst (takeAndClear (log_logs l) threadId) @ es"
    using tk es by (simp add: l1_def takeAndClear_upd)
  show ?case using a b c d by simp
qed

lemma map_nth_appended:
  "map (\<lambda>e. f ((h @ map g xs) ! e)) [length h ..< length h + length xs] = map (\<lambda>x. f (g x)) xs"
  by (rule nth_equalityI) (simp_all add: nth_append)

text \<open>
  C2. In package \<open>log\<close> a logger with \<open>DisableDebug\<close> set drops a record call of every
  level: \<open>Info\<close> and \<open>Error\<close> return a pointer to a fresh zero entry and leave the store
  without a mapping for the thread id. In the root package the same \<open>Info\<close> call stores
  its entry: there only a Debug call is dropped (\<open>logEntry_suppressed\<close>), every other
  call is stored (\<open>logEntry_stored\<close>), and the entry returned by a dropped call takes
  key/value pairs (\<open>Data_noop\<close>).
\<close>

theorem log_DisableDebug_drops_every_level:
  "log_Info (log_exLogger\<lparr>log_DisableDebug := True\<rparr>) [] ''t'' ''a'' exCaller ''id0''
     = (0, log_exLogger\<lparr>log_DisableDebug := True\<rparr>, [log_zeroEntry])
   \<and> log_Error (log_exLogger\<lparr>log_DisableDebug := True\<rparr>) [] ''t'' ''b'' exCaller ''id1''
     = (0, log_exLogger\<lparr>log_DisableDebug := True\<rparr>, [log_zeroEntry])
   \<and> log_logs (log_exLogger\<lparr>log_DisableDebug := True\<rparr>) ''t'' = None
   \<and> Info (exLogger\<lparr>DisableDebug := True\<rparr>) [] ''t'' ''a'' exCaller
     = (0, exLogger\<lparr>DisableDebug := True, logs := [''t'' \<mapsto> [0]]\<rparr>, [mkEntry ''t'' levelInfo ''a''])"
  by (simp add: log_Info_def log_Error_def log_logEntry_def alloc_def log_exLogger_def
       Info_def logEntry_def exLogger_def insertEntry_eq takeAndClear_eq getCallSite_def mkEntry_def
       levelInfo_def levelDebug_def)

text \<open>
  C9. A thread of execution makes record calls, none of them suppressed, one after the
  other under one thread id. The sequence that take-and-clear then drains for the id is
  what was buffered before the calls followed by the pointers the calls returned, in call
  order; there is one pointer for each call, no pointer occurs twice, and the entry behind
  the pointer of a call has the thread id, the level and the message of that call. This
  holds in both packages (in package \<open>log\<close> a call is not suppressed when
  \<open>DisableDebug\<close> is off).
\<close>

theorem append_ordering:
  assumes "\<forall>call \<in> set calls. \<not> (fst call = levelDebug \<and> DisableDebug l)"
      and "logEntries l h threadId calls = (es, l', h')"
      and "\<not> log_DisableDebug l2"
      and "log_logEntries l2 h2 threadId calls2 = (es2, l2', h2')"
  shows "fst (takeAndClear (logs l') threadId) = fst (takeAndClear (logs l) threadId) @ es
         \<and> length es = length calls \<and> distinct es
         \<and> map (\<lambda>e. (ThreadId (h' ! e), Level (h' ! e), Message (h' ! e))) es
             = map (\<lambda>call. (threadId, String_logLevel (fst call), fst (snd call))) calls
         \<and> fst (takeAndClear (log_logs l2') threadId)
             = fst (takeAndClear (log_logs l2) threadId) @ es2
         \<and> length es2 = length calls2 \<and> distinct es2
         \<and> map (\<lambda>e. (log_ThreadId (h2' ! e), log_Level (h2' ! e), log_Message (h2' ! e))) es2
             = map (\<lambda>call. (threadId, String_logLevel (fst call), fst (snd call))) calls2"
proof -
  note A = logEntries_stored [OF assms(1,2)]
  note B = log_logEntries_stored [OF assms(3,4)]
  have A1: "es = [length h ..< length h + length calls]" using A by simp
  have A2: "h' = h @ map (newEntry l threadId) calls" using A by simp
  have A3: "fst (takeAndClear (logs l') threadId) = fst (takeAndClear (logs l) threadId) @ es"
    using A by simp
  have A4: "map (\<lambda>e. (ThreadId (h' ! e), Level (h' ! e), Message (h' ! e))) es
             = map (\<lambda>call. (threadId, String_logLevel (fst call), fst (snd call))) calls"
    unfolding A1 A2
    using map_nth_appended [of "\<lambda>x. (ThreadId x, Level x, Message x)" h "newEntry l threadId" calls]
    by (simp add: newEntry_def)
  have B1: "es2 = [length h2 ..< length h2 + length calls2]" using B by simp
  have B2: "h2' = h2 @ map (log_newEntry l2 threadId) calls2" using B by simp
  have B3: "fst (takeAndClear (log_logs l2') threadId)
             = fst (takeAndClear (log_logs l2) threadId) @ es2"
    using B by simp
  have B4: "map (\<lambda>e. (log_ThreadId (h2' ! e), log_Level (h2' ! e), log_Message (h2' ! e))) es2
             = map (\<lambda>call. (threadId, String_logLevel (fst call), fst (snd call))) calls2"
    unfolding B1 B2
    using map_nth_appended [of "\<lambda>x. (log_ThreadId x, log_Level x, log_Message x)" h2
            "log_newEntry l2 threadId" calls2]
    by (simp add: log_newEntry_def Let_def)
  show ?thesis using A1 A3 A4 B1 B3 B4 by simp
qed

theorem append_ordering_witness:
  "fst (logEntries exLogger [] ''t'' exCalls) = [0, 1, 2]
   \<and> fst (takeAndClear (logs (fst (snd (logEntries exLogger [] ''t'' exCalls)))) ''t'') = [0, 1, 2]
   \<and> fst (log_logEntries log_exLogger [] ''t'' log_exCalls) = [0, 1]
   \<and> fst (takeAndClear (log_logs (fst (snd (log_logEntries log_exLogger [] ''t'' log_exCalls)))) ''t'')
       = [0, 1]"
proof -
  have h1: "\<forall>call \<in> set exCalls. \<not> (fst call = levelDebug \<and> DisableDebug exLogger)"
    by (simp add: exLogger_def)
  have h2: "logEntries exLogger [] ''t'' exCalls
             = (fst (logEntries exLogger [] ''t'' exCalls),
                fst (snd (logEntries exLogger [] ''t'' exCalls)),
                snd (snd (logEntries exLogger [] ''t'' exCalls)))"
    by simp
  have h3: "\<not> log_DisableDebug log_exLogger"
    by (simp add: log_exLogger_def)
  have h4: "log_logEntries log_exLogger [] ''t'' log_exCalls
             = (fst (log_logEntries log_exLogger [] ''t'' log_exCalls),
                fst (snd (log_logEntries log_exLogger [] ''t'' log_exCalls)),
                snd (snd (log_logEntries log_exLogger [] ''t'' log_exCalls)))"
    by simp
  note T = append_ordering [OF h1 h2 h3 h4]
  have n1: "length exCalls = 3" by (simp add: exCalls_def)
  have n2: "length log_exCalls = 2" by (simp add: log_exCalls_def)
  have e1: "fst (logEntries exLogger [] ''t'' exCalls) = [0, 1, 2]"
    using logEntries_stored [OF h1 h2] n1 by (simp add: upt_rec)
  have e2: "fst (log_logEntries log_exLogger [] ''t'' log_exCalls) = [0, 1]"
    using log_logEntries_stored [OF h3 h4] n2 by (simp add: upt_rec)
  have b1: "fst (takeAndClear (logs exLogger) ''t'') = []"
    by (simp add: takeAndClear_eq exLogger_def)
  have b2: "fst (takeAndClear (log_logs log_exLogger) ''t'') = []"
    by (simp add: takeAndClear_eq log_exLogger_def)
  from T e1 e2 b1 b2 show ?thesis by simp
qed

section \<open>Emission\<close>

lemma end'_both_callbacks:
  assumes "OnError l = Some onError" and "OnLogEvent l = Some onLogEvent"
      and "filter (\<lambda>e. Level (h ! e) = ''Error'') (fst (takeAndClear (logs l) threadId)) \<noteq> []"
  shows "snd (end' l h kind threadId route status duration now w) =
           (let log = \<lparr>Date = now, Kind = kind, ThreadId_Log = threadId, Route = route,
                       Status = status, Duration = duration,
                       Entries = filter (\<lambda>e. Level (h ! e) = ''Error'')
                                   (fst (takeAndClear (logs l) threadId))\<rparr>
            in onLogEvent log h (onError log h w))"
proof -
  obtain ee m where tc: "takeAndClear (logs l) threadId = (ee, m)"
    by (cases "takeAndClear (logs l) threadId")
  with assms(3) have ne: "filter (\<lambda>e. Level (h ! e) = ''Error'') ee \<noteq> []" by simp
  then have "ee \<noteq> []" by auto
  with tc ne assms(1,2) show ?thesis
    by (simp add: end'_def errsOf_filter Let_def)
qed

lemma end'_main_callback_full:
  assumes "OnLogEvent l = Some onLogEvent"
      and "OnError l = None
           \<or> filter (\<lambda>e. Level (h ! e) = ''Error'') (fst (takeAndClear (logs l) threadId)) = []"
      and "kind \<noteq> kindSession \<or> fst (takeAndClear (logs l) threadId) \<noteq> []"
  shows "snd (end' l h kind threadId route status duration now w) =
           onLogEvent \<lparr>Date = now, Kind = kind, ThreadId_Log = threadId, Route = route,
                        Status = status, Duration = duration,
                        Entries = fst (takeAndClear (logs l) threadId)\<rparr> h w"
proof -
  obtain ee m where tc: "takeAndClear (logs l) threadId = (ee, m)"
    by (cases "takeAndClear (logs l) threadId")
  with assms show ?thesis
    by (auto simp: end'_def errsOf_filter Let_def split: option.splits)
qed

lemma log_end_main_callback:
  assumes "log_OnLogEvent l = Some onLogEvent"
      and "kind \<noteq> kindSession \<or> fst (takeAndClear (log_logs l) threadId) \<noteq> []"
  shows "snd (log_end l h kind threadId route status duration now w) =
           onLogEvent \<lparr>Date = now, Kind = kind, ThreadId_Log = threadId, Route = route,
                        Status = status, Duration = duration,
                        Entries = fst (takeAndClear (log_logs l) threadId)\<rparr> h w"
proof -
  obtain ee m where tc: "takeAndClear (log_logs l) threadId = (ee, m)"
    by (cases "takeAndClear (log_logs l) threadId")
  with assms show ?thesis
    by (auto simp: log_end_def Let_def split: option.splits)
qed

lemma end'_request_main_callback:
  assumes "OnLogEvent l = Some onLogEvent"
  shows "\<exists>entries w'. snd (end' l h kindRequest threadId route status duration now w) =
           onLogEvent \<lparr>Date = now, Kind = kindRequest, ThreadId_Log = threadId, Route = route,
                        Status = status, Duration = duration, Entries = entries\<rparr> h w'"
proof -
  obtain ee m where tc: "takeAndClear (logs l) threadId = (ee, m)"
    by (cases "takeAndClear (logs l) threadId")
  with assms show ?thesis
    by (auto simp: end'_def Let_def kindRequest_def kindSession_def split: option.splits)
qed

text \<open>
  C1. The entries \<open>Info("a")\<close>, \<open>Error("b")\<close>, \<open>Debug("c")\<close>, \<open>Error("d")\<close> are buffered
  and both callbacks are set. \<open>end\<close> calls \<open>OnError\<close> with the two Error entries, and
  then calls \<open>OnLogEvent\<close> with the same two entries, not with all four: the assignment
  to \<open>log.Entries\<close> made for the error callback is still in place. With \<open>OnError\<close> nil
  and the same buffer, \<open>OnLogEvent\<close> is called with all four entries.
\<close>

theorem error_view_reaches_main_callback:
  "snd (end' (exLogger\<lparr>logs := [''t'' \<mapsto> [0, 1, 2, 3]]\<rparr>) exHeap kindSession ''t'' ''job'' 0 0 7 [])
     = [Call_OnError \<lparr>Date = 7, Kind = kindSession, ThreadId_Log = ''t'', Route = ''job'',
                      Status = 0, Duration = 0, Entries = [1, 3]\<rparr>,
        Call_OnLogEvent \<lparr>Date = 7, Kind = kindSession, ThreadId_Log = ''t'', Route = ''job'',
                         Status = 0, Duration = 0, Entries = [1, 3]\<rparr>]
   \<and> snd (end' (exLogger\<lparr>OnError := None, logs := [''t'' \<mapsto> [0, 1, 2, 3]]\<rparr>) exHeap kindSession
             ''t'' ''job'' 0 0 7 [])
     = [Call_OnLogEvent \<lparr>Date = 7, Kind = kindSession, ThreadId_Log = ''t'', Route = ''job'',
                         Status = 0, Duration = 0, Entries = [0, 1, 2, 3]\<rparr>]"
  by (simp add: Let_def end'_def takeAndClear_eq errsOf_filter exLogger_def exHeap_def mkEntry_def
      levelInfo_def levelError_def levelDebug_def recOnError_def recOnLogEvent_def)

text \<open>
  C5. A request with the entries \<open>Info("a")\<close>, \<open>Error("b")\<close> buffered and both callbacks
  set is finished with route \<open>/pay\<close>, status 500 and duration 12. \<open>OnLogEvent\<close> is called
  with that route, status and duration, but with the Error entry alone, while the
  sequence drained for the id has both entries. What does hold is above: a request always
  reaches \<open>OnLogEvent\<close> with its route, status and duration
  (\<open>end'_request_main_callback\<close>), with the drained sequence when \<open>OnError\<close> is nil or
  no entry has level Error (\<open>end'_main_callback_full\<close>), and always so in package
  \<open>log\<close> (\<open>log_end_main_callback\<close>).
\<close>

theorem request_entries_narrowed:
  "snd (End (exLogger\<lparr>logs := [''t'' \<mapsto> [0, 1]]\<rparr>) exHeap ''t'' ''/pay'' 500 12 7 [])
     = [Call_OnError \<lparr>Date = 7, Kind = kindRequest, ThreadId_Log = ''t'', Route = ''/pay'',
                      Status = 500, Duration = 12, Entries = [1]\<rparr>,
        Call_OnLogEvent \<lparr>Date = 7, Kind = kindRequest, ThreadId_Log = ''t'', Route = ''/pay'',
                         Status = 500, Duration = 12, Entries = [1]\<rparr>]
   \<and> fst (takeAndClear [''t'' \<mapsto> [0, 1]] ''t'') = [0, 1]"
  by (simp add: Let_def End_def end'_def takeAndClear_eq errsOf_filter exLogger_def exHeap_def mkEntry_def
      levelInfo_def levelError_def levelDebug_def recOnError_def recOnLogEvent_def kindRequest_def kindSession_def)

section \<open>Concurrent callers\<close>

text \<open>
  A goroutine that runs its \<open>Load\<close> and its \<open>Store\<close> with no other goroutine in
  between performs \<open>insertEntry\<close>.
\<close>

lemma gstep_Load_Store:
  "gstep l h \<lparr>todo = e # es, held = None\<rparr>
     = (l, \<lparr>todo = e # es, held = Some (Load (logs l) (ThreadId (h ! e)))\<rparr>)
   \<and> gstep l h \<lparr>todo = e # es, held = Some (Load (logs l) (ThreadId (h ! e)))\<rparr>
     = (insertEntry l h e, \<lparr>todo = es, held = None\<rparr>)"
  by (simp add: gstep_def insertEntry_def)

text \<open>
  C6. Two goroutines each insert one entry under thread id \<open>t\<close> into an empty store.
  When both perform their \<open>Load\<close> before either performs its \<open>Store\<close>, both find no
  mapping, each stores a slice holding its own entry alone, and the second \<open>Store\<close>
  replaces the first: both goroutines have finished, and \<open>End\<close> drains one entry, not
  two. When the goroutines run one after the other, both entries are stored.
\<close>

theorem interleaved_insert_loses_entry:
  "run exLogger exHeap [\<lparr>todo = [0], held = None\<rparr>, \<lparr>todo = [2], held = None\<rparr>] [0, 1, 0, 1]
     = (exLogger\<lparr>logs := [''t'' \<mapsto> [2]]\<rparr>,
        [\<lparr>todo = [], held = None\<rparr>, \<lparr>todo = [], held = None\<rparr>])
   \<and> finished [\<lparr>todo = [], held = None\<rparr>, \<lparr>todo = [], held = None\<rparr>]
   \<and> snd (End (exLogger\<lparr>logs := [''t'' \<mapsto> [2]]\<rparr>) exHeap ''t'' ''/r'' 200 5 7 [])
     = [Call_OnLogEvent \<lparr>Date = 7, Kind = kindRequest, ThreadId_Log = ''t'', Route = ''/r'',
                         Status = 200, Duration = 5, Entries = [2]\<rparr>]
   \<and> run exLogger exHeap [\<lparr>todo = [0], held = None\<rparr>, \<lparr>todo = [2], held = None\<rparr>] [0, 0, 1, 1]
     = (exLogger\<lparr>logs := [''t'' \<mapsto> [0, 2]]\<rparr>,
        [\<lparr>todo = [], held = None\<rparr>, \<lparr>todo = [], held = None\<rparr>])"
  by (simp add: gstep_def insertEntry_Store_def Load_def Store_def exLogger_def exHeap_def mkEntry_def
      finished_def Let_def End_def end'_def takeAndClear_eq errsOf_filter
      levelInfo_def levelError_def levelDebug_def recOnError_def recOnLogEvent_def kindRequest_def kindSession_def)

end
